theory Spec2Isabelle
  imports Main "HOL-Library.Word"
begin

unbundle bit_operations_syntax

section \<open>JavaScript strings\<close>

text \<open>
  A JavaScript string is a sequence of UTF-16 code units; \<open>length\<close>, \<open>===\<close>,
  \<open>split\<close> and property keys all work on code units. A code unit is a natural number
  (below \<open>0x10000\<close>; no statement depends on that bound). A literal of the source is
  written \<open>js ''...''\<close> where it is printable ASCII and as a list of code units
  elsewhere.
\<close>

type_synonym jsstring = "nat list"

definition js :: "string \<Rightarrow> jsstring" where
  "js s = map of_char s"

text \<open>
  \<open>String.prototype.toLowerCase\<close> and \<open>toUpperCase\<close> follow the Unicode default
  case conversions. On a string of the Basic Latin and Latin-1 blocks (every code unit
  below \<open>0x100\<close>) they work code unit by code unit and are written out here. On any
  other string they need the Unicode character database (case mappings, special casing,
  the context of a final sigma), which is no part of the repository: there the result is
  taken from the parameter \<open>ucd\<close>. Every statement below holds for every value of
  \<open>ucd\<close>, hence for the conversions of the engine that runs the code.
\<close>

record unicode_data =
  lower_beyond_latin1 :: "jsstring \<Rightarrow> jsstring"
  upper_beyond_latin1 :: "jsstring \<Rightarrow> jsstring"

definition latin1 :: "jsstring \<Rightarrow> bool" where
  "latin1 s = list_all (\<lambda>u. u < 0x100) s"

definition lower_unit :: "nat \<Rightarrow> nat" where
  "lower_unit u =
     (if (0x41 \<le> u \<and> u \<le> 0x5A) \<or> (0xC0 \<le> u \<and> u \<le> 0xDE \<and> u \<noteq> 0xD7)
      then u + 32 else u)"

definition toLowerCase :: "unicode_data \<Rightarrow> jsstring \<Rightarrow> jsstring" where
  "toLowerCase ucd s = (if latin1 s then map lower_unit s else lower_beyond_latin1 ucd s)"

definition upper_unit :: "nat \<Rightarrow> nat list" where
  "upper_unit u =
     (if (0x61 \<le> u \<and> u \<le> 0x7A) \<or> (0xE0 \<le> u \<and> u \<le> 0xFE \<and> u \<noteq> 0xF7)
      then [u - 32]
      else if u = 0xDF then [0x53, 0x53]
      else if u = 0xB5 then [0x39C]
      else if u = 0xFF then [0x178]
      else [u])"

definition toUpperCase :: "unicode_data \<Rightarrow> jsstring \<Rightarrow> jsstring" where
  "toUpperCase ucd s =
     (if latin1 s then concat (map upper_unit s) else upper_beyond_latin1 ucd s)"

text \<open>\<open>String.prototype.trim\<close> removes WhiteSpace and LineTerminator code points at both ends.\<close>

definition is_white :: "nat \<Rightarrow> bool" where
  "is_white u \<longleftrightarrow>
     u \<in> {0x9, 0xA, 0xB, 0xC, 0xD, 0x20, 0xA0, 0x1680, 0x2028, 0x2029, 0x202F, 0x205F,
          0x3000, 0xFEFF} \<or> (0x2000 \<le> u \<and> u \<le> 0x200A)"

definition trim :: "jsstring \<Rightarrow> jsstring" where
  "trim s = rev (dropWhile is_white (rev (dropWhile is_white s)))"

text \<open>\<open>s.split(' ')\<close>: the pieces between single spaces; the empty string gives one empty piece.\<close>

fun split_sp :: "jsstring \<Rightarrow> jsstring list" where
  "split_sp [] = [[]]"
| "split_sp (u # us) =
     (if u = 0x20 then [] # split_sp us
      else (u # hd (split_sp us)) # tl (split_sp us))"

section \<open>Values and property lookup\<close>

text \<open>
  \<open>mappings[k]\<close> on an object literal finds an own property first and then follows the
  prototype chain to \<open>Object.prototype\<close>, whose properties are built-in functions
  (and the \<open>__proto__\<close> accessor, which yields \<open>Object.prototype\<close> itself).
  A missing property is \<open>undefined\<close>, here \<open>None\<close>.
\<close>

datatype jsval = Str jsstring | NativeFunction string | ObjectPrototype

definition Object_prototype :: "(jsstring \<times> jsval) list" where
  "Object_prototype =
    [(js ''constructor'', NativeFunction ''Object''),
     (js ''__defineGetter__'', NativeFunction ''__defineGetter__''),
     (js ''__defineSetter__'', NativeFunction ''__defineSetter__''),
     (js ''hasOwnProperty'', NativeFunction ''hasOwnProperty''),
     (js ''__lookupGetter__'', NativeFunction ''__lookupGetter__''),
     (js ''__lookupSetter__'', NativeFunction ''__lookupSetter__''),
     (js ''isPrototypeOf'', NativeFunction ''isPrototypeOf''),
     (js ''propertyIsEnumerable'', NativeFunction ''propertyIsEnumerable''),
     (js ''toString'', NativeFunction ''toString''),
     (js ''valueOf'', NativeFunction ''valueOf''),
     (js ''__proto__'', ObjectPrototype),
     (js ''toLocaleString'', NativeFunction ''toLocaleString'')]"

type_synonym dict = "(jsstring \<times> jsstring) list"

definition getProp :: "dict \<Rightarrow> jsstring \<Rightarrow> jsval option" where
  "getProp d k =
     (case map_of d k of
        Some v \<Rightarrow> Some (Str v)
      | None \<Rightarrow> map_of Object_prototype k)"

text \<open>
  Truthiness: the empty string is falsy, objects and functions are truthy.
  \<open>truthyProp d k\<close> is the value of \<open>d[k]\<close> when it is truthy, as the tests
  \<open>if (d[k])\<close> and \<open>d[k] || x\<close> use it; \<open>undefined\<close> is falsy.
\<close>

fun truthy :: "jsval \<Rightarrow> bool" where
  "truthy (Str s) = (s \<noteq> [])"
| "truthy (NativeFunction n) = True"
| "truthy ObjectPrototype = True"

definition truthyProp :: "dict \<Rightarrow> jsstring \<Rightarrow> jsval option" where
  "truthyProp d k =
     (case getProp d k of
        Some v \<Rightarrow> if truthy v then Some v else None
      | None \<Rightarrow> None)"

text \<open>\<open>ToString\<close>, as \<open>Array.prototype.join\<close> applies it to each element.\<close>

fun ToString :: "jsval \<Rightarrow> jsstring" where
  "ToString (Str s) = s"
| "ToString (NativeFunction n) = js ''function '' @ js n @ js ''() { [native code] }''"
| "ToString ObjectPrototype = js ''[object Object]''"

fun join_sp :: "jsval list \<Rightarrow> jsstring" where
  "join_sp [] = []"
| "join_sp [v] = ToString v"
| "join_sp (v # vs) = ToString v @ [0x20] @ join_sp vs"

section \<open>Translation service\<close>

subsection \<open>The hardcoded mappings\<close>

definition en_es :: dict where
  "en_es =
    [(js ''hello'', js ''hola''),
     (js ''goodbye'', js ''adi'' @ [0xF3] @ js ''s''),
     (js ''good morning'', js ''buenos d'' @ [0xED] @ js ''as''),
     (js ''good night'', js ''buenas noches''),
     (js ''how are you'', js ''c'' @ [0xF3] @ js ''mo est'' @ [0xE1] @ js ''s''),
     (js ''thank you'', js ''gracias''),
     (js ''please'', js ''por favor''),
     (js ''yes'', js ''s'' @ [0xED]),
     (js ''no'', js ''no''),
     (js ''welcome'', js ''bienvenido''),
     (js ''friend'', js ''amigo''),
     (js ''love'', js ''amor''),
     (js ''water'', js ''agua''),
     (js ''food'', js ''comida''),
     (js ''help'', js ''ayuda''),
     (js ''i am fine'', js ''estoy bien''),
     (js ''what is your name'', js ''cu'' @ [0xE1] @ js ''l es tu nombre''),
     (js ''my name is'', js ''mi nombre es''),
     (js ''nice to meet you'', js ''mucho gusto''),
     (js ''see you later'', js ''hasta luego'')]"

definition en_fr :: dict where
  "en_fr =
    [(js ''hello'', js ''bonjour''),
     (js ''goodbye'', js ''au revoir''),
     (js ''good morning'', js ''bonjour''),
     (js ''good night'', js ''bonne nuit''),
     (js ''how are you'', js ''comment allez-vous''),
     (js ''thank you'', js ''merci''),
     (js ''please'', js ''s'' @ [0x27] @ js ''il vous pla'' @ [0xEE] @ js ''t''),
     (js ''yes'', js ''oui''),
     (js ''no'', js ''non''),
     (js ''welcome'', js ''bienvenue''),
     (js ''friend'', js ''ami''),
     (js ''love'', js ''amour''),
     (js ''water'', js ''eau''),
     (js ''food'', js ''nourriture''),
     (js ''help'', js ''aide''),
     (js ''i am fine'', js ''je vais bien''),
     (js ''what is your name'', js ''comment vous appelez-vous''),
     (js ''my name is'', js ''je m'' @ [0x27] @ js ''appelle''),
     (js ''nice to meet you'', js ''enchant'' @ [0xE9]),
     (js ''see you later'', [0xE0] @ js '' plus tard'')]"

definition en_de :: dict where
  "en_de =
    [(js ''hello'', js ''hallo''),
     (js ''goodbye'', js ''auf wiedersehen''),
     (js ''good morning'', js ''guten morgen''),
     (js ''good night'', js ''gute nacht''),
     (js ''how are you'', js ''wie geht es dir''),
     (js ''thank you'', js ''danke''),
     (js ''please'', js ''bitte''),
     (js ''yes'', js ''ja''),
     (js ''no'', js ''nein''),
     (js ''welcome'', js ''willkommen''),
     (js ''friend'', js ''freund''),
     (js ''love'', js ''liebe''),
     (js ''water'', js ''wasser''),
     (js ''food'', js ''essen''),
     (js ''help'', js ''hilfe''),
     (js ''i am fine'', js ''mir geht es gut''),
     (js ''what is your name'', js ''wie hei'' @ [0xDF] @ js ''t du''),
     (js ''my name is'', js ''ich hei'' @ [0xDF] @ js ''e''),
     (js ''nice to meet you'', js ''freut mich''),
     (js ''see you later'', js ''bis sp'' @ [0xE4] @ js ''ter'')]"

definition en_ur :: dict where
  "en_ur =
    [(js ''hello'', [0x627, 0x644, 0x633, 0x644, 0x627, 0x645, 0x20, 0x639, 0x644, 0x6CC, 0x6A9, 0x645]),
     (js ''goodbye'', [0x62E, 0x62F, 0x627, 0x20, 0x62D, 0x627, 0x641, 0x638]),
     (js ''good morning'', [0x635, 0x628, 0x62D, 0x20, 0x628, 0x62E, 0x6CC, 0x631]),
     (js ''good night'', [0x634, 0x628, 0x20, 0x628, 0x62E, 0x6CC, 0x631]),
     (js ''how are you'', [0x622, 0x67E, 0x20, 0x6A9, 0x6CC, 0x633, 0x6D2, 0x20, 0x6C1, 0x6CC, 0x6BA]),
     (js ''thank you'', [0x634, 0x6A9, 0x631, 0x6CC, 0x6C1]),
     (js ''please'', [0x628, 0x631, 0x627, 0x6C1, 0x20, 0x6A9, 0x631, 0x645]),
     (js ''yes'', [0x6C1, 0x627, 0x6BA]),
     (js ''no'', [0x646, 0x6C1, 0x6CC, 0x6BA]),
     (js ''welcome'', [0x62E, 0x648, 0x634, 0x20, 0x622, 0x645, 0x62F, 0x6CC, 0x62F]),
     (js ''friend'', [0x62F, 0x648, 0x633, 0x62A]),
     (js ''love'', [0x645, 0x62D, 0x628, 0x62A]),
     (js ''water'', [0x67E, 0x627, 0x646, 0x6CC]),
     (js ''food'', [0x6A9, 0x6BE, 0x627, 0x646, 0x627]),
     (js ''help'', [0x645, 0x62F, 0x62F]),
     (js ''i am fine'', [0x645, 0x6CC, 0x6BA, 0x20, 0x679, 0x6BE, 0x6CC, 0x6A9, 0x20, 0x6C1, 0x648, 0x6BA]),
     (js ''what is your name'', [0x622, 0x67E, 0x20, 0x6A9, 0x627, 0x20, 0x646, 0x627, 0x645, 0x20, 0x6A9, 0x6CC, 0x627, 0x20, 0x6C1, 0x6D2]),
     (js ''my name is'', [0x645, 0x6CC, 0x631, 0x627, 0x20, 0x646, 0x627, 0x645, 0x20, 0x6C1, 0x6D2]),
     (js ''nice to meet you'', [0x622, 0x67E, 0x20, 0x633, 0x6D2, 0x20, 0x645, 0x644, 0x20, 0x6A9, 0x631, 0x20, 0x62E, 0x648, 0x634, 0x6CC, 0x20, 0x6C1, 0x648, 0x626, 0x6CC]),
     (js ''see you later'', [0x67E, 0x6BE, 0x631, 0x20, 0x645, 0x644, 0x6CC, 0x6BA, 0x20, 0x6AF, 0x6D2])]"

definition es_en :: dict where
  "es_en =
    [(js ''hola'', js ''hello''),
     (js ''adi'' @ [0xF3] @ js ''s'', js ''goodbye''),
     (js ''buenos d'' @ [0xED] @ js ''as'', js ''good morning''),
     (js ''buenas noches'', js ''good night''),
     (js ''c'' @ [0xF3] @ js ''mo est'' @ [0xE1] @ js ''s'', js ''how are you''),
     (js ''gracias'', js ''thank you''),
     (js ''por favor'', js ''please''),
     (js ''s'' @ [0xED], js ''yes''),
     (js ''no'', js ''no''),
     (js ''bienvenido'', js ''welcome'')]"

definition fr_en :: dict where
  "fr_en =
    [(js ''bonjour'', js ''hello''),
     (js ''au revoir'', js ''goodbye''),
     (js ''bonne nuit'', js ''good night''),
     (js ''merci'', js ''thank you''),
     (js ''oui'', js ''yes''),
     (js ''non'', js ''no''),
     (js ''bienvenue'', js ''welcome'')]"

definition TRANSLATIONS :: "(jsstring \<times> dict) list" where
  "TRANSLATIONS =
    [(js ''en-es'', en_es),
     (js ''en-fr'', en_fr),
     (js ''en-de'', en_de),
     (js ''en-ur'', en_ur),
     (js ''es-en'', es_en),
     (js ''fr-en'', fr_en)]"

definition SUPPORTED_LANGUAGES :: "(jsstring \<times> jsstring) list" where
  "SUPPORTED_LANGUAGES =
    [(js ''en'', js ''English''),
     (js ''es'', js ''Spanish''),
     (js ''fr'', js ''French''),
     (js ''de'', js ''German''),
     (js ''ur'', js ''Urdu'')]"

subsection \<open>translateText\<close>

text \<open>
  The clock readings (\<open>Date.now()\<close>) and the \<open>processingTime\<close> derived from them are
  left out of the model; \<open>translateText\<close> returns the \<open>translated\<close> component.
  \<open>TRANSLATIONS[key] || {}\<close> is an own-property lookup: the key contains \<open>-\<close>, which
  no property name of \<open>Object.prototype\<close> does (lemma \<open>key_not_inherited\<close>).
\<close>

definition mappings_of :: "jsstring \<Rightarrow> jsstring \<Rightarrow> dict" where
  "mappings_of sourceLang targetLang =
     (case map_of TRANSLATIONS (sourceLang @ js ''-'' @ targetLang) of
        Some d \<Rightarrow> d
      | None \<Rightarrow> [])"

definition translateWord :: "dict \<Rightarrow> jsstring \<Rightarrow> jsval" where
  "translateWord mappings word =
     (case truthyProp mappings word of Some v \<Rightarrow> v | None \<Rightarrow> Str word)"

definition translateText :: "unicode_data \<Rightarrow> jsstring \<Rightarrow> jsstring \<Rightarrow> jsstring \<Rightarrow> jsval" where
  "translateText ucd text sourceLang targetLang =
     (if sourceLang = targetLang then Str text
      else
        let mappings = mappings_of sourceLang targetLang;
            normalizedText = trim (toLowerCase ucd text)
        in case truthyProp mappings normalizedText of
             Some v \<Rightarrow> v
           | None \<Rightarrow>
               let words = split_sp normalizedText;
                   translatedWords = map (translateWord mappings) words;
                   result = join_sp translatedWords
               in if result = normalizedText
                  then Str (js ''['' @ toUpperCase ucd targetLang @ js ''] '' @ text)
                  else Str result)"

subsection \<open>The RPC handlers\<close>

text \<open>
  A handler either throws before it reaches its callback or calls \<open>callback(null, response)\<close>.
  The request's \<open>timestamp\<close> is an \<open>int64\<close> field, decoded as its decimal string and
  read back with \<open>parseInt\<close>; \<open>new Date(t).toISOString()\<close> throws a \<open>RangeError\<close>
  when \<open>t\<close> is outside the range of time values, 8.64e15 milliseconds either side of
  the epoch. The other log lines print strings and cannot throw; they are left out, and
  so are the \<open>processing_time_ms\<close> fields, which are differences of clock readings.
  \<open>translated_text\<close> is the value the handler hands to the callback, before any
  serialization.
\<close>

datatype jserror = RangeError jsstring | Error jsstring

fun message :: "jserror \<Rightarrow> jsstring" where
  "message (RangeError m) = m"
| "message (Error m) = m"

datatype 'r outcome = Threw jserror | Callback 'r

record TextRequest =
  req_text :: jsstring
  source_language :: jsstring
  target_language :: jsstring
  user_id :: jsstring
  timestamp :: "64 word"

record TextResponse =
  original_text :: jsstring
  translated_text :: jsval
  res_source_language :: jsstring
  res_target_language :: jsstring
  success :: bool
  error_message :: jsstring

definition toISOString :: "64 word \<Rightarrow> jserror + unit" where
  "toISOString t =
     (if \<bar>sint t\<bar> \<le> 8640000000000000 then Inr ()
      else Inl (RangeError (js ''Invalid time value'')))"

text \<open>
  \<open>handleTranslateText_try\<close> is the handler with the call inside its \<open>try\<close> block as
  a fallible step; the handler of the source runs it with \<open>translateText\<close>, which
  returns on every string. The log line that formats the timestamp stands before the
  \<open>try\<close> block.
\<close>

definition handleTranslateText_try ::
  "(jsstring \<Rightarrow> jsstring \<Rightarrow> jsstring \<Rightarrow> jserror + jsval) \<Rightarrow> TextRequest \<Rightarrow> TextResponse outcome"
where
  "handleTranslateText_try translate request =
     (case toISOString (timestamp request) of
        Inl e \<Rightarrow> Threw e
      | Inr _ \<Rightarrow>
          (case translate (req_text request) (source_language request) (target_language request) of
             Inr translated \<Rightarrow>
               Callback \<lparr>original_text = req_text request,
                         translated_text = translated,
                         res_source_language = source_language request,
                         res_target_language = target_language request,
                         success = True,
                         error_message = []\<rparr>
           | Inl error \<Rightarrow>
               Callback \<lparr>original_text = req_text request,
                         translated_text = Str [],
                         res_source_language = source_language request,
                         res_target_language = target_language request,
                         success = False,
                         error_message = message error\<rparr>))"

definition handleTranslateText :: "unicode_data \<Rightarrow> TextRequest \<Rightarrow> TextResponse outcome" where
  "handleTranslateText ucd = handleTranslateText_try (\<lambda>t s g. Inr (translateText ucd t s g))"



record LanguagesResponse =
  languages :: "(jsstring \<times> jsstring) list"

definition handleGetSupportedLanguages :: "'call \<Rightarrow> LanguagesResponse outcome" where
  "handleGetSupportedLanguages call = Callback \<lparr>languages = SUPPORTED_LANGUAGES\<rparr>"

section \<open>Audio service\<close>

text \<open>
  \<open>Buffer.from(string)\<close> encodes the string as UTF-8: surrogate pairs are combined into
  one code point, a lone surrogate becomes U+FFFD.
\<close>

type_synonym buffer = "8 word list"

definition is_high :: "nat \<Rightarrow> bool" where
  "is_high u \<longleftrightarrow> 0xD800 \<le> u \<and> u \<le> 0xDBFF"

definition is_low :: "nat \<Rightarrow> bool" where
  "is_low u \<longleftrightarrow> 0xDC00 \<le> u \<and> u \<le> 0xDFFF"

definition scalar :: "nat \<Rightarrow> nat" where
  "scalar u = (if is_high u \<or> is_low u then 0xFFFD else u)"

fun code_points :: "jsstring \<Rightarrow> nat list" where
  "code_points [] = []"
| "code_points [u] = [scalar u]"
| "code_points (u # l # rest) =
     (if is_high u \<and> is_low l
      then (0x10000 + (u - 0xD800) * 0x400 + (l - 0xDC00)) # code_points rest
      else scalar u # code_points (l # rest))"

definition utf8 :: "nat \<Rightarrow> nat list" where
  "utf8 c =
     (if c < 0x80 then [c]
      else if c < 0x800 then [0xC0 + c div 64, 0x80 + c mod 64]
      else if c < 0x10000 then [0xE0 + c div 4096, 0x80 + c div 64 mod 64, 0x80 + c mod 64]
      else [0xF0 + c div 262144, 0x80 + c div 4096 mod 64, 0x80 + c div 64 mod 64,
            0x80 + c mod 64])"

definition Buffer_from :: "jsstring \<Rightarrow> buffer" where
  "Buffer_from s = map of_nat (concat (map utf8 (code_points s)))"

text \<open>
  The sample \<open>Math.floor(128 + 127 * Math.sin(i * 0.01))\<close> is floating-point arithmetic
  with an implementation-approximated sine; the byte stored at index \<open>i\<close> is the
  parameter \<open>wave i\<close>. The clock readings are left out as above.
\<close>

record GeneratedAudio =
  translatedAudio :: buffer
  originalSize :: nat
  processedSize :: nat

definition generateTranslatedAudio ::
  "(nat \<Rightarrow> 8 word) \<Rightarrow> buffer \<Rightarrow> jsstring \<Rightarrow> jsstring \<Rightarrow> GeneratedAudio"
where
  "generateTranslatedAudio wave originalAudio sourceLang targetLang =
     (let header = Buffer_from (js ''TRANSLATED_AUDIO:'' @ sourceLang @ js ''->'' @ targetLang @ js ''|'');
          dummyAudioSize = max (length originalAudio) 1024;
          dummyAudio = map wave [0..<dummyAudioSize];
          result = header @ dummyAudio
      in \<lparr>translatedAudio = result,
          originalSize = length originalAudio,
          processedSize = length result\<rparr>)"

text \<open>The fields of the request that the handler only logs are not part of the record.\<close>

record AudioRequest =
  audio_data :: buffer
  audio_format :: jsstring
  audio_source_language :: jsstring
  audio_target_language :: jsstring

record AudioResponse =
  translated_audio :: buffer
  res_audio_format :: jsstring
  res_audio_source_language :: jsstring
  res_audio_target_language :: jsstring
  audio_success :: bool
  audio_error_message :: jsstring
  original_size :: nat
  processed_size :: nat

definition handleProcessAudio_try ::
  "(buffer \<Rightarrow> jsstring \<Rightarrow> jsstring \<Rightarrow> jserror + GeneratedAudio) \<Rightarrow> AudioRequest
     \<Rightarrow> AudioResponse outcome"
where
  "handleProcessAudio_try generate request =
     (case generate (audio_data request) (audio_source_language request)
             (audio_target_language request) of
        Inr g \<Rightarrow>
          Callback \<lparr>translated_audio = translatedAudio g,
                    res_audio_format =
                      (if audio_format request \<noteq> [] then audio_format request else js ''wav''),
                    res_audio_source_language = audio_source_language request,
                    res_audio_target_language = audio_target_language request,
                    audio_success = True,
                    audio_error_message = [],
                    original_size = originalSize g,
                    processed_size = processedSize g\<rparr>
      | Inl error \<Rightarrow>
          Callback \<lparr>translated_audio = [],
                    res_audio_format = audio_format request,
                    res_audio_source_language = audio_source_language request,
                    res_audio_target_language = audio_target_language request,
                    audio_success = False,
                    audio_error_message = message error,
                    original_size = length (audio_data request),
                    processed_size = 0\<rparr>)"

definition handleProcessAudio :: "(nat \<Rightarrow> 8 word) \<Rightarrow> AudioRequest \<Rightarrow> AudioResponse outcome" where
  "handleProcessAudio wave =
     handleProcessAudio_try (\<lambda>a s t. Inr (generateTranslatedAudio wave a s t))"

section \<open>Client: base64 encoder\<close>

text \<open>
  \<open>charCodeAt\<close> past the end is \<open>NaN\<close>, here \<open>None\<close>; the bitwise operators read
  \<open>NaN\<close> as 0. Indexing \<open>chars\<close> past its end is \<open>undefined\<close>. The operator \<open>+\<close>
  concatenates when one operand is a string, turning \<open>undefined\<close> and \<open>NaN\<close> into their
  names, and gives \<open>NaN\<close> when no operand is a string.
\<close>

datatype operand = S jsstring | Undefined | NaN

fun plus_string :: "jsstring \<Rightarrow> operand \<Rightarrow> jsstring" where
  "plus_string a (S b) = a @ b"
| "plus_string a Undefined = a @ js ''undefined''"
| "plus_string a NaN = a @ js ''NaN''"

fun plus :: "operand \<Rightarrow> operand \<Rightarrow> operand" where
  "plus (S a) y = S (plus_string a y)"
| "plus Undefined (S b) = S (js ''undefined'' @ b)"
| "plus NaN (S b) = S (js ''NaN'' @ b)"
| "plus x y = NaN"

definition chars :: jsstring where
  "chars = js ''ABCDEFGHIJKLMNOPQRSTUVWXYZabcdefghijklmnopqrstuvwxyz0123456789+/=''"

definition charCodeAt :: "jsstring \<Rightarrow> nat \<Rightarrow> nat option" where
  "charCodeAt str i = (if i < length str then Some (str ! i) else None)"

definition toInt :: "nat option \<Rightarrow> nat" where
  "toInt x = (case x of None \<Rightarrow> 0 | Some v \<Rightarrow> v)"

definition chars_at :: "nat \<Rightarrow> operand" where
  "chars_at index = (if index < length chars then S [chars ! index] else Undefined)"

text \<open>One turn of the loop: the value added to \<open>output\<close>.\<close>

definition btoa_group :: "jsstring \<Rightarrow> nat \<Rightarrow> operand" where
  "btoa_group str i =
     (let a = charCodeAt str i;
          b = charCodeAt str (i + 1);
          c = charCodeAt str (i + 2);
          index1 = drop_bit 2 (toInt a);
          index2 = push_bit 4 (toInt a AND 3) OR drop_bit 4 (toInt b);
          index3 = (if b = None then 64 else push_bit 2 (toInt b AND 15) OR drop_bit 6 (toInt c));
          index4 = (if c = None then 64 else toInt c AND 63)
      in plus (plus (plus (chars_at index1) (chars_at index2)) (chars_at index3))
           (chars_at index4))"

function btoa_loop :: "jsstring \<Rightarrow> nat \<Rightarrow> jsstring \<Rightarrow> jsstring" where
  "btoa_loop str i output =
     (if i < length str then btoa_loop str (i + 3) (plus_string output (btoa_group str i))
      else output)"
  by pat_completeness auto
termination
  by (relation "measure (\<lambda>(str, i, output). length str - i)") auto

declare btoa_loop.simps [simp del]

definition btoa :: "jsstring \<Rightarrow> jsstring" where
  "btoa str = btoa_loop str 0 []"

text \<open>
  \<open>generateDummyAudio\<close>: 10240 bytes of a sine pattern (a floating-point computation,
  the parameter \<open>wave\<close> again), turned into a binary string and encoded.
\<close>

definition generateDummyAudio :: "(nat \<Rightarrow> 8 word) \<Rightarrow> jsstring" where
  "generateDummyAudio wave = btoa (map (\<lambda>i. unat (wave i)) [0..<10240])"

section \<open>Notions used in the statements\<close>

text \<open>
  The word-by-word mapping in the words of the specification: each word is replaced by
  its dictionary entry, a word absent from the dictionary is left unchanged, and the
  words are joined by single spaces.
\<close>

definition entryOrSelf :: "dict \<Rightarrow> jsstring \<Rightarrow> jsstring" where
  "entryOrSelf d w = (case map_of d w of Some v \<Rightarrow> v | None \<Rightarrow> w)"

definition spec_wordByWord :: "dict \<Rightarrow> jsstring \<Rightarrow> jsstring" where
  "spec_wordByWord d n = join_sp (map (\<lambda>w. Str (entryOrSelf d w)) (split_sp n))"

text \<open>The header that \<open>generateTranslatedAudio\<close> puts in front of the samples.\<close>

definition audio_header :: "jsstring \<Rightarrow> jsstring \<Rightarrow> buffer" where
  "audio_header sourceLang targetLang =
     Buffer_from (js ''TRANSLATED_AUDIO:'' @ sourceLang @ js ''->'' @ targetLang @ js ''|'')"

definition ascii :: "jsstring \<Rightarrow> bool" where
  "ascii s = list_all (\<lambda>u. u < 0x80) s"

text \<open>The response a handler passed to its callback, if it reached the callback.\<close>

fun response_of :: "'r outcome \<Rightarrow> 'r option" where
  "response_of (Callback r) = Some r"
| "response_of (Threw e) = None"

section \<open>Strings and dictionaries: auxiliary facts\<close>

lemmas str_defs =
  js_def latin1_def toLowerCase_def lower_unit_def toUpperCase_def upper_unit_def trim_def
  is_white_def

lemmas lookup_defs = translateWord_def truthyProp_def getProp_def Object_prototype_def

lemma split_sp_nonempty: "split_sp s \<noteq> []"
  by (induction s) auto

lemma join_sp_Cons: "vs \<noteq> [] \<Longrightarrow> join_sp (v # vs) = ToString v @ [0x20] @ join_sp vs"
  by (cases vs) auto

text \<open>Joining the pieces of a split gives the string back.\<close>

lemma join_split: "join_sp (map Str (split_sp s)) = s"
proof (induction s)
  case Nil
  show ?case by simp
next
  case (Cons u us)
  obtain w ws where sp: "split_sp us = w # ws"
    using split_sp_nonempty [of us] by (cases "split_sp us") auto
  show ?case
  proof (cases "u = 0x20")
    case True
    with Cons sp show ?thesis by (simp add: join_sp_Cons)
  next
    case False
    with Cons sp show ?thesis by (cases ws) auto
  qed
qed

text \<open>Every entry of every table is a non-empty string, hence truthy.\<close>

lemma table_values:
  "d \<in> snd ` set TRANSLATIONS \<Longrightarrow> \<forall>(k, v) \<in> set d. v \<noteq> []"
  by (auto simp: TRANSLATIONS_def en_es_def en_fr_def en_de_def en_ur_def es_en_def fr_en_def
        js_def)

lemma mappings_values:
  assumes "map_of (mappings_of s t) k = Some v"
  shows "v \<noteq> []"
proof (cases "map_of TRANSLATIONS (s @ js ''-'' @ t)")
  case None
  with assms show ?thesis by (simp add: mappings_of_def)
next
  case (Some d)
  then have "d \<in> snd ` set TRANSLATIONS" by (force dest: map_of_SomeD)
  then have "\<forall>(k, v) \<in> set d. v \<noteq> []" by (rule table_values)
  moreover from assms Some have "(k, v) \<in> set d"
    by (auto simp: mappings_of_def dest: map_of_SomeD)
  ultimately show ?thesis by auto
qed

lemma truthyProp_own:
  "map_of (mappings_of s t) k = Some v \<Longrightarrow> truthyProp (mappings_of s t) k = Some (Str v)"
  by (simp add: truthyProp_def getProp_def mappings_values)

lemma truthyProp_absent:
  "map_of d k = None \<Longrightarrow> map_of Object_prototype k = None \<Longrightarrow> truthyProp d k = None"
  by (simp add: truthyProp_def getProp_def)

text \<open>The key of \<open>TRANSLATIONS\<close> is never a property name of \<open>Object.prototype\<close>.\<close>

lemma key_not_inherited: "map_of Object_prototype (s @ js ''-'' @ t) = None"
proof -
  have "\<forall>k \<in> fst ` set Object_prototype. 0x2D \<notin> set k"
    by (simp add: Object_prototype_def js_def)
  moreover have "0x2D \<in> set (s @ js ''-'' @ t)" by (simp add: js_def)
  ultimately have "s @ js ''-'' @ t \<notin> fst ` set Object_prototype" by blast
  then show ?thesis by (simp add: map_of_eq_None_iff)
qed

lemma mappings_en_es: "mappings_of (js ''en'') (js ''es'') = en_es"
  by (simp add: mappings_of_def TRANSLATIONS_def js_def)

lemma mappings_fr_en: "mappings_of (js ''fr'') (js ''en'') = fr_en"
  by (simp add: mappings_of_def TRANSLATIONS_def js_def)

section \<open>translateText\<close>

text \<open>
  Where neither the normalized text nor one of its words is a property name inherited
  from \<open>Object.prototype\<close>, \<open>translateText\<close> computes the word-by-word mapping of the
  specification, and marks the original text when the mapping changes nothing.
\<close>

lemma translateWord_entry:
  assumes "map_of (mappings_of s t) w = None \<longrightarrow> map_of Object_prototype w = None"
  shows "translateWord (mappings_of s t) w = Str (entryOrSelf (mappings_of s t) w)"
proof (cases "map_of (mappings_of s t) w")
  case None
  with assms show ?thesis
    by (simp add: translateWord_def truthyProp_absent entryOrSelf_def)
next
  case (Some v)
  then show ?thesis
    by (simp add: translateWord_def truthyProp_own entryOrSelf_def)
qed

lemma translateText_fallback:
  assumes diff: "sourceLang \<noteq> targetLang"
    and nokey: "map_of (mappings_of sourceLang targetLang) (trim (toLowerCase ucd text)) = None"
    and own: "\<forall>w \<in> set (trim (toLowerCase ucd text) # split_sp (trim (toLowerCase ucd text))).
                map_of (mappings_of sourceLang targetLang) w = None \<longrightarrow>
                map_of Object_prototype w = None"
  shows "translateText ucd text sourceLang targetLang =
           Str (if spec_wordByWord (mappings_of sourceLang targetLang) (trim (toLowerCase ucd text))
                     = trim (toLowerCase ucd text)
                then js ''['' @ toUpperCase ucd targetLang @ js ''] '' @ text
                else spec_wordByWord (mappings_of sourceLang targetLang) (trim (toLowerCase ucd text)))"
proof -
  define m where "m = mappings_of sourceLang targetLang"
  define n where "n = trim (toLowerCase ucd text)"
  from nokey own have none: "truthyProp m n = None"
    by (simp add: truthyProp_absent m_def n_def)
  have "map (translateWord m) (split_sp n) = map (\<lambda>w. Str (entryOrSelf m w)) (split_sp n)"
    using own unfolding m_def n_def by (intro map_cong refl translateWord_entry) simp
  then have wbw: "join_sp (map (translateWord m) (split_sp n)) = spec_wordByWord m n"
    unfolding spec_wordByWord_def by (rule arg_cong)
  have "translateText ucd text sourceLang targetLang =
          Str (if spec_wordByWord m n = n then js ''['' @ toUpperCase ucd targetLang @ js ''] '' @ text
               else spec_wordByWord m n)"
    using diff none wbw by (simp add: translateText_def Let_def flip: m_def n_def)
  then show ?thesis by (simp only: m_def n_def)
qed

text \<open>
  Claim C1. A request with different languages whose normalized text is not a key of the
  dictionary gets the word-by-word mapping, or the marked original when the mapping
  changes nothing. The code departs from this on the text \<open>constructor\<close>: it is no key
  of the English-Spanish dictionary, yet \<open>mappings[normalizedText]\<close> finds the inherited
  \<open>Object\<close> function, which is truthy, and \<open>translateText\<close> returns that function
  instead of \<open>[ES] constructor\<close>. As a word of a longer phrase it is replaced by the
  function's source text.
\<close>

theorem translateText_constructor_not_marked:
  "map_of (mappings_of (js ''en'') (js ''es'')) (trim (toLowerCase ucd (js ''constructor''))) = None
   \<and> translateText ucd (js ''constructor'') (js ''en'') (js ''es'') = NativeFunction ''Object''
   \<and> translateText ucd (js ''hello constructor'') (js ''en'') (js ''es'')
       = Str (js ''hola function Object() { [native code] }'')"
  unfolding translateText_def mappings_en_es by (simp add: lookup_defs en_es_def str_defs)

text \<open>
  Claim C2, as amended. With different languages, when the normalized phrase has no entry
  (and is no inherited property name) and each of its words has no entry or is mapped to
  itself, the result is the original text behind the marker \<open>[TARGET]\<close> and a space.
  Normalization and marker use the conversions of the engine, whatever \<open>ucd\<close> is.
\<close>

theorem translateText_marker_when_unchanged:
  assumes diff: "sourceLang \<noteq> targetLang"
    and nokey: "getProp (mappings_of sourceLang targetLang) (trim (toLowerCase ucd text)) = None"
    and words: "\<forall>w \<in> set (split_sp (trim (toLowerCase ucd text))).
                  getProp (mappings_of sourceLang targetLang) w = None \<or>
                  map_of (mappings_of sourceLang targetLang) w = Some w"
  shows "translateText ucd text sourceLang targetLang =
           Str (js ''['' @ toUpperCase ucd targetLang @ js ''] '' @ text)"
proof -
  define m where "m = mappings_of sourceLang targetLang"
  define n where "n = trim (toLowerCase ucd text)"
  have w: "translateWord m w = Str w" if "w \<in> set (split_sp n)" for w
  proof -
    from words that have "getProp m w = None \<or> map_of m w = Some w"
      by (simp add: m_def n_def)
    then show ?thesis
    proof
      assume "getProp m w = None"
      then show ?thesis by (simp add: translateWord_def truthyProp_def)
    next
      assume "map_of m w = Some w"
      then show ?thesis
        unfolding m_def by (simp add: translateWord_def truthyProp_own)
    qed
  qed
  have "map (translateWord m) (split_sp n) = map Str (split_sp n)"
    by (rule map_cong [OF refl]) (rule w)
  then have "join_sp (map (translateWord m) (split_sp n)) = join_sp (map Str (split_sp n))"
    by (rule arg_cong)
  then have j: "join_sp (map (translateWord m) (split_sp n)) = n"
    by (simp only: join_split)
  from nokey have "truthyProp m n = None"
    by (simp add: truthyProp_def m_def n_def)
  with j show ?thesis
    using diff by (simp add: translateText_def Let_def flip: m_def n_def)
qed

theorem translateText_marker_when_unchanged_witness:
  "\<forall>ucd. translateText ucd (js ''Good evening'') (js ''en'') (js ''es'')
     = Str (js ''[ES] Good evening'')"
proof
  fix ucd
  have n: "trim (toLowerCase ucd (js ''Good evening'')) = js ''good evening''"
    by (simp add: str_defs)
  have diff: "js ''en'' \<noteq> js ''es''"
    by (simp add: js_def)
  have nokey: "getProp (mappings_of (js ''en'') (js ''es''))
      (trim (toLowerCase ucd (js ''Good evening''))) = None"
    unfolding n mappings_en_es by (simp add: lookup_defs en_es_def js_def)
  have words: "\<forall>w \<in> set (split_sp (trim (toLowerCase ucd (js ''Good evening'')))).
      getProp (mappings_of (js ''en'') (js ''es'')) w = None \<or>
      map_of (mappings_of (js ''en'') (js ''es'')) w = Some w"
    unfolding n mappings_en_es by (simp add: lookup_defs en_es_def js_def)
  from translateText_marker_when_unchanged [OF diff nokey words]
  show "translateText ucd (js ''Good evening'') (js ''en'') (js ''es'')
     = Str (js ''[ES] Good evening'')"
    by (simp add: str_defs)
qed

text \<open>
  The claim as the specification states it fails on \<open>hello world\<close>: the phrase has no
  entry, and the result is the word-by-word translation, not the marked original.
\<close>

theorem translateText_phrase_without_entry_translated:
  "\<forall>ucd. js ''en'' \<noteq> js ''es''
   \<and> map_of (mappings_of (js ''en'') (js ''es'')) (trim (toLowerCase ucd (js ''hello world'')))
       = None
   \<and> translateText ucd (js ''hello world'') (js ''en'') (js ''es'') = Str (js ''hola world'')
   \<and> translateText ucd (js ''hello world'') (js ''en'') (js ''es'')
       \<noteq> Str (js ''[ES] hello world'')"
  unfolding translateText_def mappings_en_es by (simp add: lookup_defs en_es_def str_defs)

section \<open>The translation handlers\<close>

lemma handleTranslateText_eq:
  "handleTranslateText ucd request =
     (case toISOString (timestamp request) of
        Inl e \<Rightarrow> Threw e
      | Inr _ \<Rightarrow>
          Callback \<lparr>original_text = req_text request,
                    translated_text =
                      translateText ucd (req_text request) (source_language request)
                        (target_language request),
                    res_source_language = source_language request,
                    res_target_language = target_language request,
                    success = True,
                    error_message = []\<rparr>)"
  by (simp add: handleTranslateText_def handleTranslateText_try_def split: sum.split)

lemma toISOString_ok: "toISOString 1702900000000 = Inr ()"
  by (simp add: toISOString_def)

text \<open>
  Claim C3. With equal source and target language the translated text is the input text
  itself, for the function and for every response of the handler.
\<close>

theorem translateText_same_language:
  "(sourceLang = targetLang \<longrightarrow> translateText ucd text sourceLang targetLang = Str text)
   \<and> (source_language request = target_language request \<longrightarrow>
        (\<forall>response. handleTranslateText ucd request = Callback response \<longrightarrow>
           translated_text response = Str (req_text request)))"
  by (auto simp: translateText_def handleTranslateText_eq split: sum.splits)

theorem translateText_same_language_witness:
  "\<forall>ucd. translateText ucd (js ''  Hello World'') (js ''en'') (js ''en'')
       = Str (js ''  Hello World'')
   \<and> map_option translated_text (response_of (handleTranslateText ucd
        \<lparr>req_text = js ''  Hello World'', source_language = js ''en'', target_language = js ''en'',
         user_id = js ''u1'', timestamp = 1702900000000\<rparr>)) = Some (Str (js ''  Hello World''))"
proof
  fix ucd
  define request where "request =
    \<lparr>req_text = js ''  Hello World'', source_language = js ''en'', target_language = js ''en'',
     user_id = js ''u1'', timestamp = 1702900000000\<rparr>"
  note same = translateText_same_language
    [of "js ''en''" "js ''en''" ucd "js ''  Hello World''" request]
  have "handleTranslateText ucd request
      = Callback (the (response_of (handleTranslateText ucd request)))"
    by (simp add: handleTranslateText_eq request_def toISOString_ok)
  with same have "translated_text (the (response_of (handleTranslateText ucd request)))
      = Str (js ''  Hello World'')"
    by (simp add: request_def)
  moreover have "response_of (handleTranslateText ucd request) \<noteq> None"
    by (simp add: handleTranslateText_eq request_def toISOString_ok)
  ultimately have "map_option translated_text (response_of (handleTranslateText ucd request))
      = Some (Str (js ''  Hello World''))"
    by (cases "response_of (handleTranslateText ucd request)") simp_all
  with same show "translateText ucd (js ''  Hello World'') (js ''en'') (js ''en'')
       = Str (js ''  Hello World'')
   \<and> map_option translated_text (response_of (handleTranslateText ucd
        \<lparr>req_text = js ''  Hello World'', source_language = js ''en'', target_language = js ''en'',
         user_id = js ''u1'', timestamp = 1702900000000\<rparr>)) = Some (Str (js ''  Hello World''))"
    unfolding request_def by simp
qed

lemma hello_hola: "translateText ucd (js ''hello'') (js ''en'') (js ''es'') = Str (js ''hola'')"
  unfolding translateText_def mappings_en_es by (simp add: lookup_defs en_es_def str_defs)

text \<open>
  Claim C4. With different languages, when the normalized text is a key of the
  dictionary the result is its entry, for every text and every value of \<open>ucd\<close>;
  \<open>hello\<close> from \<open>en\<close> to \<open>es\<close> gives \<open>hola\<close>, also through the handler.
\<close>

theorem translateText_exact_match:
  "(sourceLang \<noteq> targetLang
      \<and> map_of (mappings_of sourceLang targetLang) (trim (toLowerCase ucd text)) = Some v
      \<longrightarrow> translateText ucd text sourceLang targetLang = Str v)
   \<and> translateText ucd (js ''hello'') (js ''en'') (js ''es'') = Str (js ''hola'')
   \<and> map_option translated_text (response_of (handleTranslateText ucd
        \<lparr>req_text = js ''hello'', source_language = js ''en'', target_language = js ''es'',
         user_id = js ''u1'', timestamp = 1702900000000\<rparr>)) = Some (Str (js ''hola''))"
proof (intro conjI impI)
  assume "sourceLang \<noteq> targetLang
    \<and> map_of (mappings_of sourceLang targetLang) (trim (toLowerCase ucd text)) = Some v"
  then show "translateText ucd text sourceLang targetLang = Str v"
    by (simp add: translateText_def Let_def truthyProp_own)
next
  show "translateText ucd (js ''hello'') (js ''en'') (js ''es'') = Str (js ''hola'')"
    by (rule hello_hola)
next
  show "map_option translated_text (response_of (handleTranslateText ucd
        \<lparr>req_text = js ''hello'', source_language = js ''en'', target_language = js ''es'',
         user_id = js ''u1'', timestamp = 1702900000000\<rparr>)) = Some (Str (js ''hola''))"
    by (simp add: handleTranslateText_eq toISOString_ok hello_hola)
qed

theorem translateText_exact_match_witness:
  "\<forall>ucd. map_of (mappings_of (js ''fr'') (js ''en'')) (trim (toLowerCase ucd (js '' Au Revoir '')))
       = Some (js ''goodbye'')
   \<and> translateText ucd (js '' Au Revoir '') (js ''fr'') (js ''en'') = Str (js ''goodbye'')"
proof
  fix ucd
  have diff: "js ''fr'' \<noteq> js ''en''"
    by (simp add: js_def)
  have key: "map_of (mappings_of (js ''fr'') (js ''en''))
      (trim (toLowerCase ucd (js '' Au Revoir ''))) = Some (js ''goodbye'')"
    unfolding mappings_fr_en by (simp add: fr_en_def str_defs)
  with diff translateText_exact_match
    [of "js ''fr''" "js ''en''" ucd "js '' Au Revoir ''" "js ''goodbye''"]
  show "map_of (mappings_of (js ''fr'') (js ''en'')) (trim (toLowerCase ucd (js '' Au Revoir '')))
       = Some (js ''goodbye'')
   \<and> translateText ucd (js '' Au Revoir '') (js ''fr'') (js ''en'') = Str (js ''goodbye'')"
    by blast
qed

text \<open>
  Beyond Latin-1 the model follows the conversions it is given. With U+212A (the Kelvin
  sign) lowercased to \<open>k\<close> the text \<open>THAN\<close>, U+212A, \<open> YOU\<close> has the exact entry
  \<open>gracias\<close>; with U+FB01 (the ligature fi) uppercased to \<open>FI\<close> the marker for that
  target is \<open>[FI]\<close>.
\<close>

lemma translateText_kelvin_sign:
  assumes "lower_beyond_latin1 ucd (js ''THAN'' @ [0x212A] @ js '' YOU'') = js ''thank you''"
  shows "translateText ucd (js ''THAN'' @ [0x212A] @ js '' YOU'') (js ''en'') (js ''es'')
           = Str (js ''gracias'')"
proof -
  have "toLowerCase ucd (js ''THAN'' @ [0x212A] @ js '' YOU'') = js ''thank you''"
    using assms by (simp add: toLowerCase_def latin1_def js_def)
  then show ?thesis
    unfolding translateText_def mappings_en_es
    by (simp add: lookup_defs en_es_def js_def trim_def is_white_def)
qed

lemma translateText_ligature_marker:
  assumes "upper_beyond_latin1 ucd [0xFB01] = js ''FI''"
  shows "translateText ucd (js ''HELLO'') (js ''en'') [0xFB01] = Str (js ''[FI] HELLO'')"
proof -
  have up: "toUpperCase ucd [0xFB01] = js ''FI''"
    using assms by (simp add: toUpperCase_def latin1_def)
  have m: "mappings_of (js ''en'') [0xFB01] = []"
    by (simp add: mappings_of_def TRANSLATIONS_def js_def)
  have low: "trim (toLowerCase ucd (js ''HELLO'')) = js ''hello''"
    by (simp add: str_defs)
  show ?thesis
    unfolding translateText_def m low up by (simp add: lookup_defs js_def)
qed

text \<open>
  Claim C6. Both handlers are to answer every request through their callback, with
  \<open>success\<close> and an empty message, or with the fault's message. The TranslateText
  handler formats the request's timestamp before it enters its \<open>try\<close> block; a
  timestamp beyond the range of time values makes it throw there, and the callback is
  never called.
\<close>

theorem handleTranslateText_throws_on_timestamp:
  "handleTranslateText ucd
     \<lparr>req_text = js ''hello'', source_language = js ''en'', target_language = js ''es'',
      user_id = js ''u1'', timestamp = 8640000000000001\<rparr>
   = Threw (RangeError (js ''Invalid time value''))"
  by (simp add: handleTranslateText_eq toISOString_def)

text \<open>With a timestamp in range the handler does answer, and so does its \<open>catch\<close> branch.\<close>

lemma handleTranslateText_responds:
  assumes "toISOString (timestamp request) = Inr ()"
  shows "\<exists>response. handleTranslateText ucd request = Callback response \<and> success response
           \<and> error_message response = []
           \<and> translated_text response =
               translateText ucd (req_text request) (source_language request) (target_language request)"
  using assms by (simp add: handleTranslateText_eq)

lemma handleTranslateText_try_fault:
  assumes "toISOString (timestamp request) = Inr ()"
    and "translate (req_text request) (source_language request) (target_language request) = Inl error"
  shows "\<exists>response. handleTranslateText_try translate request = Callback response
           \<and> \<not> success response \<and> error_message response = message error"
  using assms by (simp add: handleTranslateText_try_def)

text \<open>
  Claim C8. GetSupportedLanguages answers every call with the same five pairs, in this
  order; the handler reads nothing but the constant.
\<close>

theorem handleGetSupportedLanguages_fixed:
  "handleGetSupportedLanguages call =
     Callback \<lparr>languages = [(js ''en'', js ''English''), (js ''es'', js ''Spanish''),
       (js ''fr'', js ''French''), (js ''de'', js ''German''), (js ''ur'', js ''Urdu'')]\<rparr>"
  by (simp add: handleGetSupportedLanguages_def SUPPORTED_LANGUAGES_def)



section \<open>The audio service\<close>

subsection \<open>UTF-8 encoding next to ASCII code units\<close>

lemma code_points_ascii_Cons: "u < 0x80 \<Longrightarrow> code_points (u # r) = u # code_points r"
  by (cases r) (simp_all add: scalar_def is_high_def is_low_def)

lemma code_points_append_ascii:
  "u < 0x80 \<Longrightarrow> code_points (s @ u # r) = code_points s @ code_points (u # r)"
proof (induction s rule: code_points.induct)
  case 1
  show ?case by simp
next
  case (2 x)
  then show ?case by (simp add: is_low_def)
next
  case (3 x l rest)
  then show ?case by simp
qed

lemma utf8_ascii: "c < 0x80 \<Longrightarrow> utf8 c = [c]"
  by (simp add: utf8_def)

lemma Buffer_from_Nil: "Buffer_from [] = []"
  by (simp add: Buffer_from_def)

lemma Buffer_from_ascii_Cons: "u < 0x80 \<Longrightarrow> Buffer_from (u # r) = of_nat u # Buffer_from r"
  by (simp add: Buffer_from_def code_points_ascii_Cons utf8_ascii)

lemma Buffer_from_ascii_append: "ascii a \<Longrightarrow> Buffer_from (a @ r) = map of_nat a @ Buffer_from r"
  by (induction a) (simp_all add: ascii_def Buffer_from_ascii_Cons)

lemma Buffer_from_ascii: "ascii a \<Longrightarrow> Buffer_from a = map of_nat a"
  using Buffer_from_ascii_append [of a "[]"] by (simp add: Buffer_from_Nil)

lemma Buffer_from_append_ascii:
  "u < 0x80 \<Longrightarrow> Buffer_from (s @ u # r) = Buffer_from s @ Buffer_from (u # r)"
  by (simp add: Buffer_from_def code_points_append_ascii)

subsection \<open>The header\<close>

text \<open>
  The fixed parts of the header are ASCII, so the header is those parts around the UTF-8
  encodings of the two language codes, whatever the codes are.
\<close>

lemma audio_header_parts:
  "audio_header s t =
     map of_nat (js ''TRANSLATED_AUDIO:'') @ Buffer_from s @ map of_nat (js ''->'') @
     Buffer_from t @ map of_nat (js ''|'')"
proof -
  have a: "ascii (js ''TRANSLATED_AUDIO:'')" by (simp add: ascii_def js_def)
  have arrow: "js ''->'' = [0x2D, 0x3E]" and bar: "js ''|'' = [0x7C]" by (simp_all add: js_def)
  have "Buffer_from (t @ js ''|'') = Buffer_from t @ map of_nat (js ''|'')"
    unfolding bar by (simp add: Buffer_from_append_ascii Buffer_from_ascii_Cons Buffer_from_Nil)
  then have "Buffer_from (s @ js ''->'' @ t @ js ''|'')
      = Buffer_from s @ map of_nat (js ''->'') @ Buffer_from t @ map of_nat (js ''|'')"
    unfolding arrow by (simp add: Buffer_from_append_ascii Buffer_from_ascii_Cons)
  then show ?thesis
    unfolding audio_header_def by (simp add: Buffer_from_ascii_append [OF a])
qed

lemma audio_header_length:
  "length (audio_header s t) = 20 + length (Buffer_from s) + length (Buffer_from t)"
  by (simp add: audio_header_parts js_def)

subsection \<open>generateTranslatedAudio and the handler\<close>

lemma generateTranslatedAudio_eq:
  "generateTranslatedAudio wave a s t =
     \<lparr>translatedAudio = audio_header s t @ map wave [0..<max (length a) 1024],
      originalSize = length a,
      processedSize = length (audio_header s t) + max (length a) 1024\<rparr>"
  by (simp add: generateTranslatedAudio_def Let_def audio_header_def)

lemma handleProcessAudio_eq:
  "handleProcessAudio wave req =
     Callback \<lparr>translated_audio = audio_header (audio_source_language req) (audio_target_language req)
                   @ map wave [0..<max (length (audio_data req)) 1024],
               res_audio_format = (if audio_format req \<noteq> [] then audio_format req else js ''wav''),
               res_audio_source_language = audio_source_language req,
               res_audio_target_language = audio_target_language req,
               audio_success = True,
               audio_error_message = [],
               original_size = length (audio_data req),
               processed_size = length (audio_header (audio_source_language req) (audio_target_language req))
                   + max (length (audio_data req)) 1024\<rparr>"
  by (simp add: handleProcessAudio_def handleProcessAudio_try_def generateTranslatedAudio_eq)

text \<open>
  The ProcessAudio handler reaches its callback on every request, with \<open>success\<close> and an
  empty message when the generation returns and with the fault's message otherwise.
\<close>

lemma handleProcessAudio_try_responds:
  "\<exists>response. handleProcessAudio_try generate request = Callback response \<and>
     (case generate (audio_data request) (audio_source_language request)
             (audio_target_language request) of
        Inr g \<Rightarrow> audio_success response \<and> audio_error_message response = []
      | Inl error \<Rightarrow> \<not> audio_success response \<and> audio_error_message response = message error)"
  by (simp add: handleProcessAudio_try_def split: sum.split)

text \<open>
  Claim C5, as amended. The processed audio has \<open>max(input size, 1024)\<close> bytes of samples
  behind the header; the header has 20 bytes and the UTF-8 encodings of the two
  language codes, so its length is fixed by the codes, not by the service. The bytes are
  the header and then \<open>wave 0\<close>, \<open>wave 1\<close>, ...: they depend on the length of the input
  and on the language codes only.
\<close>

theorem processAudio_size_content:
  "\<exists>response. handleProcessAudio wave request = Callback response
     \<and> audio_success response
     \<and> original_size response = length (audio_data request)
     \<and> processed_size response = length (translated_audio response)
     \<and> processed_size response =
           max (length (audio_data request)) 1024 + 20
           + length (Buffer_from (audio_source_language request))
           + length (Buffer_from (audio_target_language request))
     \<and> translated_audio response =
           audio_header (audio_source_language request) (audio_target_language request)
           @ map wave [0..<max (length (audio_data request)) 1024]"
  by (simp add: handleProcessAudio_eq audio_header_length)

text \<open>
  The header length is not one constant: for the same three input bytes it is 24 with
  the codes \<open>en\<close> and \<open>es\<close>, and 26 with \<open>eng\<close> and \<open>spa\<close>.
\<close>

theorem header_length_varies:
  "map_option (\<lambda>r. processed_size r - max (original_size r) 1024)
     (response_of (handleProcessAudio (\<lambda>i. 0)
        \<lparr>audio_data = [1, 2, 3], audio_format = js ''wav'',
         audio_source_language = js ''en'', audio_target_language = js ''es''\<rparr>)) = Some 24
   \<and> map_option (\<lambda>r. processed_size r - max (original_size r) 1024)
     (response_of (handleProcessAudio (\<lambda>i. 0)
        \<lparr>audio_data = [1, 2, 3], audio_format = js ''wav'',
         audio_source_language = js ''eng'', audio_target_language = js ''spa''\<rparr>)) = Some 26"
  by (simp add: handleProcessAudio_eq audio_header_length Buffer_from_ascii ascii_def js_def)

text \<open>
  Claim C10, as amended. The returned audio is longer than the input: it has as many
  bytes as the header plus \<open>max(input size, 1024)\<close>, which \<open>processed_size\<close> reports,
  and so at least 1024 plus the header length also for an empty input. It begins with
  the header, the UTF-8 encoding of \<open>TRANSLATED_AUDIO:{source}->{target}|\<close>: its first
  17 bytes are the ASCII text \<open>TRANSLATED_AUDIO:\<close>, and with ASCII language codes the
  whole header is the ASCII text.
\<close>

theorem processAudio_exceeds_input:
  "\<exists>response. handleProcessAudio wave request = Callback response
     \<and> audio_success response
     \<and> processed_size response = length (translated_audio response)
     \<and> length (translated_audio response) =
           length (audio_header (audio_source_language request) (audio_target_language request))
           + max (length (audio_data request)) 1024
     \<and> length (audio_data request) < length (translated_audio response)
     \<and> 1024 + length (audio_header (audio_source_language request) (audio_target_language request))
           \<le> length (translated_audio response)
     \<and> take (length (audio_header (audio_source_language request) (audio_target_language request)))
           (translated_audio response)
         = audio_header (audio_source_language request) (audio_target_language request)
     \<and> take 17 (translated_audio response) = map of_nat (js ''TRANSLATED_AUDIO:'')
     \<and> (ascii (audio_source_language request) \<and> ascii (audio_target_language request) \<longrightarrow>
          audio_header (audio_source_language request) (audio_target_language request)
          = map of_nat (js ''TRANSLATED_AUDIO:'' @ audio_source_language request @ js ''->''
                          @ audio_target_language request @ js ''|''))"
proof -
  define s where "s = audio_source_language request"
  define t where "t = audio_target_language request"
  define n where "n = length (audio_data request)"
  define samples where "samples = map wave [0..<max n 1024]"
  have "handleProcessAudio wave request =
     Callback \<lparr>translated_audio = audio_header s t @ samples,
               res_audio_format = (if audio_format request \<noteq> [] then audio_format request else js ''wav''),
               res_audio_source_language = s,
               res_audio_target_language = t,
               audio_success = True,
               audio_error_message = [],
               original_size = n,
               processed_size = length (audio_header s t) + max n 1024\<rparr>"
    unfolding s_def t_def n_def samples_def by (rule handleProcessAudio_eq)
  then obtain response where r: "handleProcessAudio wave request = Callback response"
    and audio: "translated_audio response = audio_header s t @ samples"
    and ok: "audio_success response"
    and field: "processed_size response = length (audio_header s t) + max n 1024"
    by simp
  have len: "length (translated_audio response) = length (audio_header s t) + max n 1024"
    unfolding audio by (simp add: samples_def)
  have same: "processed_size response = length (translated_audio response)"
    unfolding len by (rule field)
  have pos: "0 < length (audio_header s t)"
    by (simp add: audio_header_length)
  then have more: "n < length (translated_audio response)"
    unfolding len by linarith
  have floor: "1024 + length (audio_header s t) \<le> length (translated_audio response)"
    unfolding len by simp
  have prefix: "take (length (audio_header s t)) (translated_audio response) = audio_header s t"
    unfolding audio by simp
  have t17: "take 17 (translated_audio response) = map of_nat (js ''TRANSLATED_AUDIO:'')"
    unfolding audio by (simp add: audio_header_parts js_def)
  have asc: "ascii s \<and> ascii t \<longrightarrow>
      audio_header s t = map of_nat (js ''TRANSLATED_AUDIO:'' @ s @ js ''->'' @ t @ js ''|'')"
    by (simp add: audio_header_parts Buffer_from_ascii)
  have "handleProcessAudio wave request = Callback response
     \<and> audio_success response
     \<and> processed_size response = length (translated_audio response)
     \<and> length (translated_audio response) = length (audio_header s t) + max n 1024
     \<and> n < length (translated_audio response)
     \<and> 1024 + length (audio_header s t) \<le> length (translated_audio response)
     \<and> take (length (audio_header s t)) (translated_audio response) = audio_header s t
     \<and> take 17 (translated_audio response) = map of_nat (js ''TRANSLATED_AUDIO:'')
     \<and> (ascii s \<and> ascii t \<longrightarrow>
          audio_header s t = map of_nat (js ''TRANSLATED_AUDIO:'' @ s @ js ''->'' @ t @ js ''|''))"
    by (intro conjI r ok same len more floor prefix t17 asc)
  then show ?thesis
    unfolding s_def t_def n_def by (rule exI [of _ response])
qed

theorem processAudio_exceeds_input_witness:
  "\<exists>response. handleProcessAudio (\<lambda>i. 0)
        \<lparr>audio_data = [], audio_format = js ''wav'',
         audio_source_language = js ''en'', audio_target_language = js ''es''\<rparr> = Callback response
     \<and> length (translated_audio response) = 1048
     \<and> processed_size response = 1048
     \<and> take 24 (translated_audio response) = map of_nat (js ''TRANSLATED_AUDIO:en->es|'')"
proof -
  define request where "request = \<lparr>audio_data = [], audio_format = js ''wav'',
         audio_source_language = js ''en'', audio_target_language = js ''es''\<rparr>"
  define h where "h = audio_header (audio_source_language request) (audio_target_language request)"
  have a: "ascii (audio_source_language request) \<and> ascii (audio_target_language request)"
    by (simp add: request_def ascii_def js_def)
  from processAudio_exceeds_input [of "\<lambda>i. 0" request] a
  obtain response where r: "handleProcessAudio (\<lambda>i. 0) request = Callback response"
    and same: "processed_size response = length (translated_audio response)"
    and size: "length (translated_audio response) = length h + max (length (audio_data request)) 1024"
    and pre: "take (length h) (translated_audio response) = h"
    and hdr: "h = map of_nat (js ''TRANSLATED_AUDIO:'' @ audio_source_language request @ js ''->''
                          @ audio_target_language request @ js ''|'')"
    unfolding h_def by blast
  have h: "h = map of_nat (js ''TRANSLATED_AUDIO:en->es|'')"
    unfolding hdr by (simp add: request_def js_def)
  then have len: "length h = 24"
    by (simp add: js_def)
  from size have total: "length (translated_audio response) = 1048"
    unfolding len by (simp add: request_def)
  with same have "processed_size response = 1048"
    by simp
  moreover from pre have "take 24 (translated_audio response) = map of_nat (js ''TRANSLATED_AUDIO:en->es|'')"
    unfolding len unfolding h .
  ultimately show ?thesis
    using r total unfolding request_def by blast
qed

text \<open>
  The claim as the specification states it, with an ASCII header on every request,
  fails on a language code outside ASCII: for the source code \<open>\<eacute>\<close> (U+00E9) the
  header holds the two bytes C3 A9 of its UTF-8 encoding, so the first 23 bytes of the
  returned audio are not the 23 characters of the header text.
\<close>

theorem header_not_ascii_beyond_ascii_codes:
  "map_option (\<lambda>r. take 23 (translated_audio r))
     (response_of (handleProcessAudio (\<lambda>i. 0)
        \<lparr>audio_data = [], audio_format = js ''wav'',
         audio_source_language = [0xE9], audio_target_language = js ''es''\<rparr>))
     = Some (map of_nat (js ''TRANSLATED_AUDIO:'') @ [0xC3, 0xA9] @ map of_nat (js ''->es''))
   \<and> map of_nat (js ''TRANSLATED_AUDIO:'') @ [0xC3, 0xA9] @ map of_nat (js ''->es'')
       \<noteq> (map of_nat (js ''TRANSLATED_AUDIO:'' @ [0xE9] @ js ''->es|'') :: buffer)"
proof -
  have e: "Buffer_from [0xE9] = [0xC3, 0xA9]"
    by (simp add: Buffer_from_def scalar_def is_high_def is_low_def utf8_def)
  have es: "Buffer_from [0x65, 0x73] = [0x65, 0x73]"
    by (simp add: Buffer_from_ascii ascii_def)
  show ?thesis
    by (simp add: handleProcessAudio_eq audio_header_parts e es js_def)
qed

section \<open>The client's base64 encoder\<close>

lemma or_nat_bound: "x < 2 ^ n \<Longrightarrow> y < 2 ^ n \<Longrightarrow> x OR y < (2::nat) ^ n"
  by (metis take_bit_nat_eq_self_iff take_bit_or)

lemma and_nat_le: "(x::nat) AND y \<le> y"
  by (metis AND_upper2 of_nat_0_le_iff of_nat_and_eq of_nat_le_iff)

lemma length_chars: "length chars = 65"
  by (simp add: chars_def js_def)

lemma chars_at_in_range: "index \<le> 64 \<Longrightarrow> \<exists>ch. chars_at index = S [ch]"
  by (simp add: chars_at_def length_chars)

lemma toInt_charCodeAt: "\<forall>u \<in> set str. u < 256 \<Longrightarrow> toInt (charCodeAt str i) < 256"
  by (simp add: toInt_def charCodeAt_def)

text \<open>On bytes each of the four indices stays within the 65 characters of \<open>chars\<close>.\<close>

lemma index1_bound: "a < 256 \<Longrightarrow> drop_bit 2 a \<le> (64::nat)"
  by (simp add: drop_bit_eq_div)

lemma index2_bound:
  assumes "b < 256"
  shows "push_bit 4 (a AND 3) OR drop_bit 4 b \<le> (64::nat)"
proof -
  have "a AND 3 \<le> 3" by (rule and_nat_le)
  then have "push_bit 4 (a AND 3) < 2 ^ 6" by (simp add: push_bit_eq_mult)
  moreover from assms have "drop_bit 4 b < 2 ^ 6" by (simp add: drop_bit_eq_div)
  ultimately have "push_bit 4 (a AND 3) OR drop_bit 4 b < 2 ^ 6" by (rule or_nat_bound)
  then show ?thesis by simp
qed

lemma index3_bound:
  assumes "c < 256"
  shows "push_bit 2 (b AND 15) OR drop_bit 6 c \<le> (64::nat)"
proof -
  have "b AND 15 \<le> 15" by (rule and_nat_le)
  then have "push_bit 2 (b AND 15) < 2 ^ 6" by (simp add: push_bit_eq_mult)
  moreover from assms have "drop_bit 6 c < 2 ^ 6" by (simp add: drop_bit_eq_div)
  ultimately have "push_bit 2 (b AND 15) OR drop_bit 6 c < 2 ^ 6" by (rule or_nat_bound)
  then show ?thesis by simp
qed

lemma index4_bound: "c AND 63 \<le> (64::nat)"
  using and_nat_le [of c 63] by simp

lemma if_le: "x \<le> k \<Longrightarrow> (if P then k else x) \<le> (k::nat)"
  by simp

lemma btoa_group_four:
  assumes bin: "\<forall>u \<in> set str. u < 256"
  shows "\<exists>g. btoa_group str i = S g \<and> length g = 4"
proof -
  define a where "a = toInt (charCodeAt str i)"
  define b where "b = toInt (charCodeAt str (i + 1))"
  define c where "c = toInt (charCodeAt str (i + 2))"
  define index1 where "index1 = drop_bit 2 a"
  define index2 where "index2 = push_bit 4 (a AND 3) OR drop_bit 4 b"
  define index3 where "index3 =
    (if charCodeAt str (i + 1) = None then 64 else push_bit 2 (b AND 15) OR drop_bit 6 c)"
  define index4 where "index4 = (if charCodeAt str (i + 2) = None then 64 else c AND 63)"
  have a: "a < 256" and b: "b < 256" and c: "c < 256"
    unfolding a_def b_def c_def by (rule toInt_charCodeAt [OF bin])+
  have "index1 \<le> 64"
    unfolding index1_def using a by (rule index1_bound)
  then obtain c1 where c1: "chars_at index1 = S [c1]"
    using chars_at_in_range by blast
  have "index2 \<le> 64"
    unfolding index2_def using b by (rule index2_bound)
  then obtain c2 where c2: "chars_at index2 = S [c2]"
    using chars_at_in_range by blast
  have "index3 \<le> 64"
    unfolding index3_def using c by (intro if_le index3_bound)
  then obtain c3 where c3: "chars_at index3 = S [c3]"
    using chars_at_in_range by blast
  have "index4 \<le> 64"
    unfolding index4_def by (intro if_le index4_bound)
  then obtain c4 where c4: "chars_at index4 = S [c4]"
    using chars_at_in_range by blast
  have "plus (plus (plus (chars_at index1) (chars_at index2)) (chars_at index3)) (chars_at index4)
      = S [c1, c2, c3, c4]"
    by (simp add: c1 c2 c3 c4)
  then have "btoa_group str i = S [c1, c2, c3, c4]"
    unfolding btoa_group_def Let_def index1_def index2_def index3_def index4_def a_def b_def c_def .
  then show ?thesis by simp
qed

lemma groups_step:
  assumes "0 < (d::nat)"
  shows "(d + 2) div 3 = Suc ((d - 3 + 2) div 3)"
proof (cases "d < 3")
  case True
  with assms have "d = 1 \<or> d = 2" by auto
  then show ?thesis by auto
next
  case False
  then obtain e where "d = e + 3" by (metis add.commute le_Suc_ex not_less)
  then show ?thesis by simp
qed

text \<open>The loop adds four characters for every started group of three bytes.\<close>

lemma btoa_loop_length:
  assumes "\<forall>u \<in> set str. u < 256"
  shows "length (btoa_loop str i out) = length out + 4 * ((length str - i + 2) div 3)"
  using assms
proof (induction str i out rule: btoa_loop.induct)
  case (1 str i out)
  show ?case
  proof (cases "i < length str")
    case True
    obtain g where g: "btoa_group str i = S g" and four: "length g = 4"
      using btoa_group_four [OF "1.prems"] by blast
    from True have "btoa_loop str i out = btoa_loop str (i + 3) (plus_string out (btoa_group str i))"
      by (subst btoa_loop.simps) simp
    also have "length \<dots> =
        length (plus_string out (btoa_group str i)) + 4 * ((length str - (i + 3) + 2) div 3)"
      using True "1.prems" by (rule "1.IH")
    also have "\<dots> = length out + 4 + 4 * ((length str - (i + 3) + 2) div 3)"
      by (simp add: g four)
    also have "\<dots> = length out + 4 * ((length str - i + 2) div 3)"
      using True groups_step [of "length str - i"]
      by (simp add: diff_diff_left [symmetric] del: diff_diff_left)
    finally show ?thesis .
  next
    case False
    then show ?thesis by (subst btoa_loop.simps) simp
  qed
qed

text \<open>
  Claim C7. On a binary string (every code unit a byte) of length \<open>n\<close> the encoder returns
  \<open>4 * ceil(n / 3)\<close> characters.
\<close>

theorem btoa_length:
  "\<forall>u \<in> set str. u < 256 \<Longrightarrow> length (btoa str) = 4 * ((length str + 2) div 3)"
  by (simp add: btoa_def btoa_loop_length)

theorem btoa_length_witness: "length (btoa (js ''hello world'')) = 16"
  using btoa_length [of "js ''hello world''"] by (simp add: js_def)

text \<open>The dummy audio of the client: 10240 bytes become 13656 characters.\<close>

lemma btoa_bytes_length:
  "length (btoa (map (\<lambda>i. unat (wave i :: 8 word)) [0..<n])) = 4 * ((n + 2) div 3)"
proof -
  have "unat (wave i) < 256" for i
    using unsigned_less [of "wave i"] by simp
  then have "\<forall>u \<in> set (map (\<lambda>i. unat (wave i)) [0..<n]). u < 256"
    by auto
  then show ?thesis by (simp add: btoa_def btoa_loop_length)
qed

lemma generateDummyAudio_length: "length (generateDummyAudio wave) = 13656"
  unfolding generateDummyAudio_def btoa_bytes_length by simp

end
